theory Spec2Isabelle
  imports Complex_Main "HOL-Library.Multiset"
begin

section \<open>Team formation by ant colony optimisation\<close>

text \<open>
  The repository holds two variants of the optimiser: \<^verbatim>\<open>aco_v1.py\<close> (classes
  \<^verbatim>\<open>Student\<close>, \<^verbatim>\<open>Team\<close>, \<^verbatim>\<open>ACO\<close>) and \<^verbatim>\<open>v2/aco.py\<close> (class
  \<^verbatim>\<open>AntColonyOptimizer\<close>). Both are embedded here; the names of the second variant
  carry the prefix \<open>v2_\<close>.

  Python floats are modelled as \<^typ>\<open>real\<close>: rounding, overflow, infinities and NaN are
  not part of the model. Python integers are \<^typ>\<open>int\<close>. Every exception the code can
  raise is a value of \<open>py_error\<close>, and a function that can raise returns
  \<open>py_error + 'a\<close>.
\<close>

subsection \<open>Python primitives\<close>

datatype py_error = ValueError | IndexError | ZeroDivisionError | TypeError | UnboundLocalError

text \<open>\<^verbatim>\<open>xs.index(x)\<close>: the position of the first occurrence, \<^verbatim>\<open>ValueError\<close> when absent.\<close>

fun index_of :: "'a list \<Rightarrow> 'a \<Rightarrow> nat option" where
  "index_of [] x = None"
| "index_of (y # ys) x = (if y = x then Some 0 else map_option Suc (index_of ys x))"

text \<open>\<^verbatim>\<open>xs[i]\<close> with Python's negative indices, \<^verbatim>\<open>IndexError\<close> out of range.\<close>

definition py_pos :: "nat \<Rightarrow> int \<Rightarrow> nat option" where
  "py_pos n i =
     (let j = (if i < 0 then int n + i else i)
      in if 0 \<le> j \<and> j < int n then Some (nat j) else None)"

definition py_nth :: "'a list \<Rightarrow> int \<Rightarrow> py_error + 'a" where
  "py_nth xs i = (case py_pos (length xs) i of None \<Rightarrow> Inl IndexError | Some k \<Rightarrow> Inr (xs ! k))"

text \<open>Running a raising function over a list stops at the first exception.\<close>

fun map_err :: "('a \<Rightarrow> py_error + 'b) \<Rightarrow> 'a list \<Rightarrow> py_error + 'b list" where
  "map_err f [] = Inr []"
| "map_err f (x # xs) =
     (case f x of
        Inl e \<Rightarrow> Inl e
      | Inr y \<Rightarrow> (case map_err f xs of Inl e \<Rightarrow> Inl e | Inr ys \<Rightarrow> Inr (y # ys)))"

text \<open>
  \<^verbatim>\<open>x ** y\<close> on floats. A positive base gives \<open>x powr y\<close>. A zero base gives 1 for a zero
  exponent, 0 for a positive one and \<^verbatim>\<open>ZeroDivisionError\<close> for a negative one. A negative
  base with an integral exponent gives the signed power; with a fractional exponent Python
  yields a complex number, whose later comparison \<^verbatim>\<open>r <= cumulative\<close> raises
  \<^verbatim>\<open>TypeError\<close>: the model raises it at the power.
\<close>

definition float_pow :: "real \<Rightarrow> real \<Rightarrow> py_error + real" where
  "float_pow x y =
     (if 0 < x then Inr (x powr y)
      else if x = 0 then
        (if y = 0 then Inr 1 else if 0 < y then Inr 0 else Inl ZeroDivisionError)
      else if y = of_int \<lfloor>y\<rfloor> then
        Inr ((if even \<lfloor>y\<rfloor> then 1 else - 1) * ((- x) powr y))
      else Inl TypeError)"

subsection \<open>Variant 1: \<^verbatim>\<open>Student\<close> and \<^verbatim>\<open>Team\<close>\<close>

record student =
  student_id :: int
  prefs :: "int list"
  belbin :: string
  nationality :: string

record team =
  team_id :: int
  project :: int
  capacity :: int
  students :: "student list"

text \<open>\<^verbatim>\<open>Student.satisfaction\<close>: \<^verbatim>\<open>(len(prefs) - 1 - rank) / (len(prefs) - 1)\<close>.\<close>

definition satisfaction :: "student \<Rightarrow> int \<Rightarrow> py_error + real" where
  "satisfaction s p =
     (case index_of (prefs s) p of
        None \<Rightarrow> Inl ValueError
      | Some rank \<Rightarrow>
          if int (length (prefs s)) - 1 = 0 then Inl ZeroDivisionError
          else Inr (real_of_int (int (length (prefs s)) - 1 - int rank)
                    / real_of_int (int (length (prefs s)) - 1)))"

text \<open>\<^verbatim>\<open>Team.can_add(student, max_same_nat=2, unlimited_nat="Dutch")\<close>.\<close>

definition can_add :: "team \<Rightarrow> student \<Rightarrow> int \<Rightarrow> string \<Rightarrow> bool" where
  "can_add t s max_same_nat unlimited_nat =
     (if int (length (students t)) \<ge> capacity t then False
      else if nationality s = unlimited_nat then True
      else int (length (filter (\<lambda>m. nationality m = nationality s) (students t)))
             < max_same_nat)"

text \<open>The call \<^verbatim>\<open>t.can_add(s)\<close>, with both defaults.\<close>

definition can_add_default :: "team \<Rightarrow> student \<Rightarrow> bool" where
  "can_add_default t s = can_add t s 2 ''Dutch''"

definition add :: "team \<Rightarrow> student \<Rightarrow> team" where
  "add t s = t\<lparr>students := students t @ [s]\<rparr>"

definition satisfaction_score :: "team \<Rightarrow> py_error + real" where
  "satisfaction_score t =
     (if students t = [] then Inr 0
      else case map_err (\<lambda>s. satisfaction s (project t)) (students t) of
             Inl e \<Rightarrow> Inl e
           | Inr xs \<Rightarrow> Inr (sum_list xs / real (length (students t))))"

definition belbin_diversity :: "team \<Rightarrow> real" where
  "belbin_diversity t =
     (if students t = [] then 0
      else real (card (set (map belbin (students t)))) / real (length (students t)))"

definition fitness :: "team \<Rightarrow> py_error + real" where
  "fitness t =
     (case satisfaction_score t of
        Inl e \<Rightarrow> Inl e
      | Inr sc \<Rightarrow> Inr (0.5 * sc + 0.5 * belbin_diversity t))"

subsection \<open>The \<^verbatim>\<open>random\<close> module\<close>

text \<open>
  The generator of Python's standard library is not part of the repository. It is a
  parameter of the model: a state type \<open>'g\<close> with the three primitives the library builds
  everything else from. \<open>rand_seed\<close> is \<^verbatim>\<open>random.seed(n)\<close>, which replaces the state;
  \<open>rand_random\<close> is \<^verbatim>\<open>random.random()\<close>; \<open>rand_below n\<close> is the library's internal
  \<^verbatim>\<open>_randbelow(n)\<close>. The state of the module is global in Python and is passed explicitly
  here.
\<close>

record 'g random_module =
  rand_seed :: "int \<Rightarrow> 'g"
  rand_random :: "'g \<Rightarrow> real \<times> 'g"
  rand_below :: "nat \<Rightarrow> 'g \<Rightarrow> nat \<times> 'g"

text \<open>What the library guarantees: a float in \<open>[0, 1)\<close>, and an index below \<open>n\<close>.\<close>

definition random_ok :: "'g random_module \<Rightarrow> bool" where
  "random_ok R \<longleftrightarrow>
     (\<forall>g. 0 \<le> fst (rand_random R g) \<and> fst (rand_random R g) < 1) \<and>
     (\<forall>n g. 0 < n \<longrightarrow> fst (rand_below R n g) < n)"

text \<open>
  \<^verbatim>\<open>random.shuffle(x)\<close>: for \<open>i\<close> from \<open>len(x) - 1\<close> down to 1, draw \<open>j\<close> below \<open>i + 1\<close>
  and swap \<open>x[i]\<close> with \<open>x[j]\<close>.
\<close>

fun shuffle_loop :: "'g random_module \<Rightarrow> nat \<Rightarrow> 'a list \<Rightarrow> 'g \<Rightarrow> 'a list \<times> 'g" where
  "shuffle_loop R 0 xs g = (xs, g)"
| "shuffle_loop R (Suc k) xs g =
     (case rand_below R (Suc (Suc k)) g of
        (j, g') \<Rightarrow> shuffle_loop R k (xs[Suc k := xs ! j, j := xs ! Suc k]) g')"

definition shuffle :: "'g random_module \<Rightarrow> 'a list \<Rightarrow> 'g \<Rightarrow> 'a list \<times> 'g" where
  "shuffle R xs g = shuffle_loop R (length xs - 1) xs g"

text \<open>\<^verbatim>\<open>random.choice(seq)\<close>: \<^verbatim>\<open>IndexError\<close> on an empty sequence.\<close>

definition choice :: "'g random_module \<Rightarrow> 'a list \<Rightarrow> 'g \<Rightarrow> (py_error + 'a) \<times> 'g" where
  "choice R seq g =
     (if seq = [] then (Inl IndexError, g)
      else case rand_below R (length seq) g of (j, g') \<Rightarrow> (Inr (seq ! j), g'))"

subsection \<open>Variant 1: the class \<^verbatim>\<open>ACO\<close>\<close>

text \<open>
  The fields of an \<^verbatim>\<open>ACO\<close> object, together with the state of the global generator
  (\<open>rng\<close>), which the methods read and advance.
\<close>

record 'g aco =
  aco_students :: "student list"
  n_projects :: int
  teams_per_project :: int
  team_size :: int
  n_teams :: int
  alpha :: real
  beta :: real
  rho :: real
  n_ants :: int
  n_iter :: int
  q :: real
  tau :: "real list list"
  base_teams :: "team list"
  rng :: 'g

text \<open>\<^verbatim>\<open>range(n)\<close> for a Python integer \<open>n\<close>.\<close>

definition py_range :: "int \<Rightarrow> int list" where
  "py_range n = map int [0..<nat n]"

text \<open>
  \<^verbatim>\<open>ACO.__init__\<close>. The last argument is the state of the generator before the call;
  \<^verbatim>\<open>random.seed(seed)\<close> replaces it.
\<close>

definition ACO_init ::
  "'g random_module \<Rightarrow> student list \<Rightarrow> int \<Rightarrow> int \<Rightarrow> int \<Rightarrow> real \<Rightarrow> real \<Rightarrow> real \<Rightarrow>
     int \<Rightarrow> int \<Rightarrow> real \<Rightarrow> int \<Rightarrow> 'g \<Rightarrow> 'g aco" where
  "ACO_init R studs n_proj per_proj tsize al be rh ants iters qq seed g0 =
     \<lparr>aco_students = studs, n_projects = n_proj, teams_per_project = per_proj,
      team_size = tsize, n_teams = n_proj * per_proj,
      alpha = al, beta = be, rho = rh, n_ants = ants, n_iter = iters, q = qq,
      tau = map (\<lambda>_. map (\<lambda>_. 1) (py_range (n_proj * per_proj))) studs,
      base_teams = map (\<lambda>j. \<lparr>team_id = j, project = j div per_proj, capacity = tsize,
                               students = []\<rparr>) (py_range (n_proj * per_proj)),
      rng = rand_seed R seed\<rparr>"

text \<open>\<^verbatim>\<open>ACO.heuristic\<close>.\<close>

definition heuristic :: "'g aco \<Rightarrow> student \<Rightarrow> team \<Rightarrow> py_error + real" where
  "heuristic a s t =
     (case satisfaction s (project t) of
        Inl e \<Rightarrow> Inl e
      | Inr sat \<Rightarrow>
          if team_size a = 0 then Inl ZeroDivisionError
          else Inr (0.5 * sat
                    + 0.5 * (real (card (insert (belbin s) (set (map belbin (students t)))))
                             / real_of_int (team_size a))
                    + 1 / 1000000))"

text \<open>
  One selection weight of \<^verbatim>\<open>construct_solution\<close>:
  \<^verbatim>\<open>tau[s.id][t.id] ** alpha * heuristic(s, t) ** beta\<close>.
\<close>

definition weight :: "'g aco \<Rightarrow> student \<Rightarrow> team \<Rightarrow> py_error + real" where
  "weight a s t =
     (case py_nth (tau a) (student_id s) of
        Inl e \<Rightarrow> Inl e
      | Inr row \<Rightarrow>
     (case py_nth row (team_id t) of
        Inl e \<Rightarrow> Inl e
      | Inr x \<Rightarrow>
     (case float_pow x (alpha a) of
        Inl e \<Rightarrow> Inl e
      | Inr tau_ij \<Rightarrow>
     (case heuristic a s t of
        Inl e \<Rightarrow> Inl e
      | Inr h \<Rightarrow>
     (case float_pow h (beta a) of
        Inl e \<Rightarrow> Inl e
      | Inr eta_ij \<Rightarrow> Inr (tau_ij * eta_ij))))))"

text \<open>
  The feasible teams of one placement, as positions in the list \<open>teams\<close>: those passing
  \<^verbatim>\<open>can_add\<close>, or, when there are none, those with free capacity.
\<close>

definition feasible :: "team list \<Rightarrow> student \<Rightarrow> nat list" where
  "feasible teams s =
     (let f = filter (\<lambda>i. can_add_default (teams ! i) s) [0..<length teams]
      in if f = [] then filter (\<lambda>i. int (length (students (teams ! i))) < capacity (teams ! i))
                          [0..<length teams]
         else f)"

text \<open>
  The cumulative loop: the first team whose running sum reaches \<open>r\<close>; \<open>None\<close> when the
  loop ends without a \<^verbatim>\<open>break\<close>.
\<close>

fun pick_cumulative :: "real \<Rightarrow> real \<Rightarrow> (nat \<times> real) list \<Rightarrow> nat option" where
  "pick_cumulative r cumulative [] = None"
| "pick_cumulative r cumulative ((t, p) # rest) =
     (if r \<le> cumulative + p then Some t else pick_cumulative r (cumulative + p) rest)"

text \<open>
  One iteration of the loop over the shuffled students. \<open>chosen\<close> is the local variable
  \<^verbatim>\<open>chosen_team\<close> as the previous iteration left it (\<open>None\<close>: not yet bound); it keeps its
  old value when the cumulative loop ends without a \<^verbatim>\<open>break\<close>.
\<close>

definition place ::
  "'g random_module \<Rightarrow> 'g aco \<Rightarrow> student \<Rightarrow> team list \<Rightarrow> nat option \<Rightarrow> 'g
     \<Rightarrow> (py_error + team list \<times> nat option) \<times> 'g" where
  "place R a s teams chosen g =
     (let fs = feasible teams s in
      case map_err (\<lambda>i. weight a s (teams ! i)) fs of
        Inl e \<Rightarrow> (Inl e, g)
      | Inr probabilities \<Rightarrow>
          let total = sum_list probabilities in
          if total = 0 then
            (case choice R fs g of
               (Inl e, g') \<Rightarrow> (Inl e, g')
             | (Inr i, g') \<Rightarrow> (Inr (teams[i := add (teams ! i) s], Some i), g'))
          else
            (case rand_random R g of
               (u, g') \<Rightarrow>
                 (case (case pick_cumulative (u * total) 0 (zip fs probabilities) of
                          Some i \<Rightarrow> Some i
                        | None \<Rightarrow> chosen) of
                    None \<Rightarrow> (Inl UnboundLocalError, g')
                  | Some i \<Rightarrow> (Inr (teams[i := add (teams ! i) s], Some i), g'))))"

fun construct_loop ::
  "'g random_module \<Rightarrow> 'g aco \<Rightarrow> student list \<Rightarrow> team list \<Rightarrow> nat option \<Rightarrow> 'g
     \<Rightarrow> (py_error + team list) \<times> 'g" where
  "construct_loop R a [] teams chosen g = (Inr teams, g)"
| "construct_loop R a (s # rest) teams chosen g =
     (case place R a s teams chosen g of
        (Inl e, g') \<Rightarrow> (Inl e, g')
      | (Inr (teams', chosen'), g') \<Rightarrow> construct_loop R a rest teams' chosen' g')"

text \<open>The fresh teams of one construction.\<close>

definition clone_teams :: "'g aco \<Rightarrow> team list" where
  "clone_teams a =
     map (\<lambda>t. \<lparr>team_id = team_id t, project = project t, capacity = team_size a,
               students = []\<rparr>) (base_teams a)"

text \<open>\<^verbatim>\<open>ACO.construct_solution\<close>: the result or the exception, and the object afterwards.\<close>

definition construct_solution ::
  "'g random_module \<Rightarrow> 'g aco \<Rightarrow> (py_error + team list \<times> real) \<times> 'g aco" where
  "construct_solution R a =
     (case shuffle R (aco_students a) (rng a) of
        (unassigned, g1) \<Rightarrow>
     (case construct_loop R a unassigned (clone_teams a) None g1 of
        (Inl e, g2) \<Rightarrow> (Inl e, a\<lparr>rng := g2\<rparr>)
      | (Inr teams, g2) \<Rightarrow>
          (case map_err fitness teams of
             Inl e \<Rightarrow> (Inl e, a\<lparr>rng := g2\<rparr>)
           | Inr fits \<Rightarrow>
               if n_teams a = 0 then (Inl ZeroDivisionError, a\<lparr>rng := g2\<rparr>)
               else (Inr (teams, sum_list fits / real_of_int (n_teams a)), a\<lparr>rng := g2\<rparr>))))"


text \<open>
  The first loop of \<^verbatim>\<open>ACO.update_pheromones\<close>: every cell \<open>tau[i][j]\<close> with
  \<open>i < len(students)\<close> and \<open>j < n_teams\<close> is multiplied by \<open>1 - rho\<close> and raised to
  \<open>1e-6\<close> when it fell below.
\<close>

definition evaporate_cell :: "real \<Rightarrow> real \<Rightarrow> real" where
  "evaporate_cell rh x =
     (let y = x * (1 - rh) in if y < 1 / 1000000 then 1 / 1000000 else y)"

definition evaporate_row :: "real \<Rightarrow> nat \<Rightarrow> real list \<Rightarrow> py_error + real list" where
  "evaporate_row rh n row =
     (if length row < n then Inl IndexError
      else Inr (map (evaporate_cell rh) (take n row) @ drop n row))"

definition evaporate :: "'g aco \<Rightarrow> py_error + real list list" where
  "evaporate a =
     (let m = length (aco_students a); n = nat (n_teams a) in
      if n = 0 then Inr (tau a)
      else if length (tau a) < m then Inl IndexError
      else case map_err (evaporate_row (rho a) n) (take m (tau a)) of
             Inl e \<Rightarrow> Inl e
           | Inr rows \<Rightarrow> Inr (rows @ drop m (tau a)))"

text \<open>
  \<^verbatim>\<open>max(ants_solutions, key=lambda x: x[1])\<close>: the first element of greatest fitness,
  \<^verbatim>\<open>ValueError\<close> (here \<open>None\<close>) on an empty list.
\<close>

fun py_max_key :: "('a \<times> real) list \<Rightarrow> ('a \<times> real) option" where
  "py_max_key [] = None"
| "py_max_key (x # xs) = Some (foldl (\<lambda>b y. if snd b < snd y then y else b) x xs)"

text \<open>\<^verbatim>\<open>tau[i][j] += v\<close> with Python's indexing.\<close>

definition tau_add :: "real list list \<Rightarrow> int \<Rightarrow> int \<Rightarrow> real \<Rightarrow> py_error + real list list" where
  "tau_add t i j v =
     (case py_pos (length t) i of
        None \<Rightarrow> Inl IndexError
      | Some i' \<Rightarrow>
          (case py_pos (length (t ! i')) j of
             None \<Rightarrow> Inl IndexError
           | Some j' \<Rightarrow> Inr (t[i' := (t ! i')[j' := t ! i' ! j' + v]])))"

text \<open>The (student id, team id) pairs of a candidate, in the order the loops visit them.\<close>

definition candidate_pairs :: "team list \<Rightarrow> (int \<times> int) list" where
  "candidate_pairs teams =
     concat (map (\<lambda>t. map (\<lambda>s. (student_id s, team_id t)) (students t)) teams)"

fun reinforce :: "real list list \<Rightarrow> (int \<times> int) list \<Rightarrow> real \<Rightarrow> py_error + real list list" where
  "reinforce t [] v = Inr t"
| "reinforce t ((i, j) # ps) v =
     (case tau_add t i j v of Inl e \<Rightarrow> Inl e | Inr t' \<Rightarrow> reinforce t' ps v)"

text \<open>\<^verbatim>\<open>ACO.update_pheromones\<close>.\<close>

definition update_pheromones ::
  "'g aco \<Rightarrow> (team list \<times> real) list \<Rightarrow> py_error + 'g aco" where
  "update_pheromones a ants_solutions =
     (case evaporate a of
        Inl e \<Rightarrow> Inl e
      | Inr t1 \<Rightarrow>
          (case py_max_key ants_solutions of
             None \<Rightarrow> Inl ValueError
           | Some (best_teams, best_fit) \<Rightarrow>
               (case reinforce t1 (candidate_pairs best_teams) (q a * best_fit) of
                  Inl e \<Rightarrow> Inl e
                | Inr t2 \<Rightarrow> Inr (a\<lparr>tau := t2\<rparr>))))"

text \<open>\<^verbatim>\<open>[self.construct_solution() for _ in range(self.n_ants)]\<close>.\<close>

fun construct_many ::
  "'g random_module \<Rightarrow> nat \<Rightarrow> 'g aco \<Rightarrow> (py_error + (team list \<times> real) list) \<times> 'g aco" where
  "construct_many R 0 a = (Inr [], a)"
| "construct_many R (Suc k) a =
     (case construct_solution R a of
        (Inl e, a') \<Rightarrow> (Inl e, a')
      | (Inr sol, a') \<Rightarrow>
          (case construct_many R k a' of
             (Inl e, a'') \<Rightarrow> (Inl e, a'')
           | (Inr sols, a'') \<Rightarrow> (Inr (sol # sols), a'')))"

text \<open>
  \<^verbatim>\<open>ACO.run\<close>. The pair \<^verbatim>\<open>(global_best_teams, global_best_fit)\<close> is an option: \<open>None\<close>
  stands for the initial \<^verbatim>\<open>(None, -math.inf)\<close>. The progress lines printed every tenth
  iteration are not modelled.
\<close>

fun run_loop ::
  "'g random_module \<Rightarrow> nat \<Rightarrow> 'g aco \<Rightarrow> (team list \<times> real) option
     \<Rightarrow> py_error + (team list \<times> real) option \<times> 'g aco" where
  "run_loop R 0 a best = Inr (best, a)"
| "run_loop R (Suc k) a best =
     (case construct_many R (nat (n_ants a)) a of
        (Inl e, a1) \<Rightarrow> Inl e
      | (Inr ants_solutions, a1) \<Rightarrow>
          (case update_pheromones a1 ants_solutions of
             Inl e \<Rightarrow> Inl e
           | Inr a2 \<Rightarrow>
               (case py_max_key ants_solutions of
                  None \<Rightarrow> Inl ValueError
                | Some (iter_best_teams, iter_best_fit) \<Rightarrow>
                    if (case best of None \<Rightarrow> True | Some (_, global_best_fit) \<Rightarrow>
                          global_best_fit < iter_best_fit)
                    then run_loop R k a2 (Some (iter_best_teams, iter_best_fit))
                    else run_loop R k a2 best)))"

definition run ::
  "'g random_module \<Rightarrow> 'g aco \<Rightarrow> py_error + (team list \<times> real) option \<times> 'g aco" where
  "run R a = run_loop R (nat (n_iter a)) a None"


subsection \<open>Variant 2: the class \<^verbatim>\<open>AntColonyOptimizer\<close>\<close>

text \<open>
  A student is a dictionary with the keys \<^verbatim>\<open>student_id\<close>, \<^verbatim>\<open>preferences\<close>,
  \<^verbatim>\<open>belbin_role\<close> and \<^verbatim>\<open>nationality\<close>, all read from text columns. A team is the list of
  its members; the candidate is the list of teams.
\<close>

record v2_student =
  v2_student_id :: string
  preferences :: "string list"
  belbin_role :: string
  v2_nationality :: string

text \<open>
  \<^verbatim>\<open>self.pheromones = defaultdict(lambda: 1.0)\<close>: a dictionary keyed by
  \<^verbatim>\<open>(student_id, team index)\<close>. Reading a missing key stores the default under that key
  and returns it.
\<close>

type_synonym pheromone_store = "string \<times> nat \<rightharpoonup> real"

definition pheromone_get :: "pheromone_store \<Rightarrow> string \<times> nat \<Rightarrow> real \<times> pheromone_store" where
  "pheromone_get ph k = (case ph k of None \<Rightarrow> (1, ph(k \<mapsto> 1)) | Some v \<Rightarrow> (v, ph))"

record 'g v2_aco =
  v2_students :: "v2_student list"
  num_teams :: int
  v2_team_size :: int
  max_iter :: int
  num_ants :: int
  v2_alpha :: real
  v2_beta :: real
  v2_rho :: real
  preference_weight :: real
  pheromones :: pheromone_store
  v2_rng :: 'g

text \<open>
  \<^verbatim>\<open>AntColonyOptimizer.__init__\<close>. The last argument is the state of the global generator
  at the call; the constructor does not touch it. The attribute \<^verbatim>\<open>project_list\<close> is never
  read and is left out.
\<close>

definition v2_init ::
  "v2_student list \<Rightarrow> int \<Rightarrow> int \<Rightarrow> int \<Rightarrow> int \<Rightarrow> real \<Rightarrow> real \<Rightarrow> real \<Rightarrow> real \<Rightarrow> 'g
     \<Rightarrow> 'g v2_aco" where
  "v2_init studs nteams tsize iters ants al be rh pw g0 =
     \<lparr>v2_students = studs, num_teams = nteams, v2_team_size = tsize, max_iter = iters,
      num_ants = ants, v2_alpha = al, v2_beta = be, v2_rho = rh, preference_weight = pw,
      pheromones = Map.empty, v2_rng = g0\<rparr>"

text \<open>\<^verbatim>\<open>AntColonyOptimizer.heuristic\<close>.\<close>

definition v2_heuristic :: "'g v2_aco \<Rightarrow> v2_student \<Rightarrow> v2_student list \<Rightarrow> real" where
  "v2_heuristic a student team =
     (if team = [] then 1
      else
        let div_score = (if belbin_role student \<notin> set (map belbin_role team) then 1 else 0.5);
            student_prefs = preferences student;
            team_projects = concat (map (\<lambda>s. take 1 (preferences s)) team);
            pref_score =
              real_of_int (sum_list (map (\<lambda>p. case index_of student_prefs p of
                                                   None \<Rightarrow> 0 | Some k \<Rightarrow> 5 - int k)
                                         (filter (\<lambda>p. p \<in> set student_prefs) team_projects)))
              / (5 * real (length team_projects) + 1 / 100000)
        in preference_weight a * pref_score + (1 - preference_weight a) * div_score)"

text \<open>
  The score loop of \<^verbatim>\<open>construct_solution\<close>. \<^verbatim>\<open>teams.index(team)\<close> is the position of the
  first team equal to \<open>team\<close>. Each pheromone read goes through the default dictionary,
  so the store is threaded through the loop.
\<close>

fun v2_scores ::
  "'g v2_aco \<Rightarrow> v2_student \<Rightarrow> v2_student list list \<Rightarrow> v2_student list list
     \<Rightarrow> pheromone_store \<Rightarrow> (py_error + real list) \<times> pheromone_store" where
  "v2_scores a student teams [] ph = (Inr [], ph)"
| "v2_scores a student teams (team # rest) ph =
     (case index_of teams team of
        None \<Rightarrow> (Inl ValueError, ph)
      | Some idx \<Rightarrow>
     (case pheromone_get ph (v2_student_id student, idx) of
        (x, ph1) \<Rightarrow>
     (case float_pow x (v2_alpha a) of
        Inl e \<Rightarrow> (Inl e, ph1)
      | Inr score \<Rightarrow>
     (case float_pow (v2_heuristic a student team) (v2_beta a) of
        Inl e \<Rightarrow> (Inl e, ph1)
      | Inr h \<Rightarrow>
     (case v2_scores a student teams rest ph1 of
        (Inl e, ph2) \<Rightarrow> (Inl e, ph2)
      | (Inr scores, ph2) \<Rightarrow> (Inr (score * h # scores), ph2))))))"

text \<open>
  \<^verbatim>\<open>random.choices(population, weights=w, k=1)[0]\<close> as the standard library computes it:
  the running sums of the weights, \<^verbatim>\<open>ValueError\<close> when their total is not positive, and a
  right bisection of \<^verbatim>\<open>random() * total\<close> in the running sums between 0 and \<open>n - 1\<close>.
\<close>

fun accumulate :: "real \<Rightarrow> real list \<Rightarrow> real list" where
  "accumulate c [] = []"
| "accumulate c (x # xs) = (c + x) # accumulate (c + x) xs"

function bisect_right :: "real list \<Rightarrow> real \<Rightarrow> nat \<Rightarrow> nat \<Rightarrow> nat" where
  "bisect_right a x lo hi =
     (if lo < hi then
        (let mid = (lo + hi) div 2
         in if x < a ! mid then bisect_right a x lo mid else bisect_right a x (mid + 1) hi)
      else lo)"
  by pat_completeness auto
termination
  by (relation "measure (\<lambda>(a, x, lo, hi). hi - lo)") auto

declare bisect_right.simps [simp del]

definition choices ::
  "'g random_module \<Rightarrow> 'a list \<Rightarrow> real list \<Rightarrow> 'g \<Rightarrow> (py_error + 'a) \<times> 'g" where
  "choices R population weights g =
     (let cum_weights = accumulate 0 weights in
      if length cum_weights \<noteq> length population then (Inl ValueError, g)
      else if cum_weights = [] then (Inl IndexError, g)
      else if last cum_weights \<le> 0 then (Inl ValueError, g)
      else case rand_random R g of
             (u, g') \<Rightarrow>
               (Inr (population ! bisect_right cum_weights (u * last cum_weights) 0
                                    (length population - 1)), g'))"

text \<open>One iteration of the loop over the shuffled students.\<close>

definition v2_place ::
  "'g random_module \<Rightarrow> 'g v2_aco \<Rightarrow> v2_student \<Rightarrow> v2_student list list \<Rightarrow> pheromone_store
     \<Rightarrow> 'g \<Rightarrow> (py_error + v2_student list list) \<times> pheromone_store \<times> 'g" where
  "v2_place R a student teams ph g =
     (let feasible_teams = filter (\<lambda>t. int (length t) < v2_team_size a) teams in
      case v2_scores a student teams feasible_teams ph of
        (Inl e, ph1) \<Rightarrow> (Inl e, ph1, g)
      | (Inr scores, ph1) \<Rightarrow>
          if scores = [] then (Inr teams, ph1, g)
          else if sum_list scores = 0 then (Inl ZeroDivisionError, ph1, g)
          else
            (case choices R feasible_teams (map (\<lambda>s. s / sum_list scores) scores) g of
               (Inl e, g') \<Rightarrow> (Inl e, ph1, g')
             | (Inr chosen_team, g') \<Rightarrow>
                 (case index_of teams chosen_team of
                    None \<Rightarrow> (Inl ValueError, ph1, g')
                  | Some chosen_idx \<Rightarrow>
                      (Inr (teams[chosen_idx := teams ! chosen_idx @ [student]]), ph1, g'))))"

fun v2_construct_loop ::
  "'g random_module \<Rightarrow> 'g v2_aco \<Rightarrow> v2_student list \<Rightarrow> v2_student list list
     \<Rightarrow> pheromone_store \<Rightarrow> 'g \<Rightarrow> (py_error + v2_student list list) \<times> pheromone_store \<times> 'g" where
  "v2_construct_loop R a [] teams ph g = (Inr teams, ph, g)"
| "v2_construct_loop R a (student # rest) teams ph g =
     (case v2_place R a student teams ph g of
        (Inl e, ph', g') \<Rightarrow> (Inl e, ph', g')
      | (Inr teams', ph', g') \<Rightarrow> v2_construct_loop R a rest teams' ph' g')"

text \<open>
  \<^verbatim>\<open>AntColonyOptimizer.construct_solution\<close>: the result or the exception, and the object
  afterwards.
\<close>

definition v2_construct_solution ::
  "'g random_module \<Rightarrow> 'g v2_aco \<Rightarrow> (py_error + v2_student list list) \<times> 'g v2_aco" where
  "v2_construct_solution R a =
     (case shuffle R (v2_students a) (v2_rng a) of
        (studs, g1) \<Rightarrow>
          (case v2_construct_loop R a studs (replicate (nat (num_teams a)) []) (pheromones a) g1 of
             (res, ph', g2) \<Rightarrow> (res, a\<lparr>pheromones := ph', v2_rng := g2\<rparr>)))"

text \<open>
  \<^verbatim>\<open>AntColonyOptimizer.evaluate\<close>. The inner loop adds
  \<^verbatim>\<open>5 - preferences.index(preferences[0])\<close> for every member; \<^verbatim>\<open>preferences[0]\<close> raises
  \<^verbatim>\<open>IndexError\<close> on an empty list, which the \<^verbatim>\<open>except ValueError\<close> does not catch.
\<close>

fun team_prefs :: "v2_student list \<Rightarrow> py_error + int" where
  "team_prefs [] = Inr 0"
| "team_prefs (s # rest) =
     (case preferences s of
        [] \<Rightarrow> Inl IndexError
      | p # _ \<Rightarrow>
          (case team_prefs rest of
             Inl e \<Rightarrow> Inl e
           | Inr n \<Rightarrow>
               Inr ((case index_of (preferences s) p of None \<Rightarrow> 0 | Some k \<Rightarrow> 5 - int k) + n)))"

definition team_terms :: "v2_student list \<Rightarrow> py_error + real \<times> real" where
  "team_terms team =
     (case team_prefs team of
        Inl e \<Rightarrow> Inl e
      | Inr n \<Rightarrow>
          Inr (real (card (set (map belbin_role team))) / 9,
               if team = [] then 0 else real_of_int n / real (5 * length team)))"

definition v2_evaluate :: "'g v2_aco \<Rightarrow> v2_student list list \<Rightarrow> py_error + real" where
  "v2_evaluate a teams =
     (case map_err team_terms teams of
        Inl e \<Rightarrow> Inl e
      | Inr terms \<Rightarrow>
          if teams = [] then Inl ZeroDivisionError
          else
            let avg_div = sum_list (map fst terms) / real (length teams);
                avg_pref = sum_list (map snd terms) / real (length teams)
            in Inr (preference_weight a * avg_pref + (1 - preference_weight a) * avg_div))"

text \<open>\<^verbatim>\<open>AntColonyOptimizer.evaporate_pheromones\<close>: every stored weight times \<open>1 - rho\<close>.\<close>

definition v2_evaporate_pheromones :: "'g v2_aco \<Rightarrow> 'g v2_aco" where
  "v2_evaporate_pheromones a =
     a\<lparr>pheromones := (\<lambda>k. map_option (\<lambda>v. v * (1 - v2_rho a)) (pheromones a k))\<rparr>"

text \<open>
  \<^verbatim>\<open>AntColonyOptimizer.update_pheromones\<close>: for every solution, every team index and every
  member, \<^verbatim>\<open>pheromones[(student_id, idx)] += fitness\<close>.
\<close>

definition pheromone_add :: "pheromone_store \<Rightarrow> string \<times> nat \<Rightarrow> real \<Rightarrow> pheromone_store" where
  "pheromone_add ph k v = ph(k \<mapsto> (case ph k of None \<Rightarrow> 1 | Some x \<Rightarrow> x) + v)"

definition v2_pairs :: "v2_student list list \<Rightarrow> (string \<times> nat) list" where
  "v2_pairs teams =
     concat (map (\<lambda>(idx, team). map (\<lambda>s. (v2_student_id s, idx)) team)
                 (zip [0..<length teams] teams))"

definition v2_update_pheromones ::
  "'g v2_aco \<Rightarrow> (v2_student list list \<times> real) list \<Rightarrow> 'g v2_aco" where
  "v2_update_pheromones a solutions =
     a\<lparr>pheromones :=
         foldl (\<lambda>ph (teams, fit). foldl (\<lambda>ph' k. pheromone_add ph' k fit) ph (v2_pairs teams))
               (pheromones a) solutions\<rparr>"

text \<open>
  \<^verbatim>\<open>AntColonyOptimizer.run\<close>. \<open>None\<close> stands for the initial \<^verbatim>\<open>(None, float('-inf'))\<close>;
  the log line of each iteration is not modelled.
\<close>

fun v2_ants ::
  "'g random_module \<Rightarrow> nat \<Rightarrow> 'g v2_aco \<Rightarrow> (v2_student list list \<times> real) option
     \<Rightarrow> py_error + (v2_student list list \<times> real) list
                   \<times> (v2_student list list \<times> real) option \<times> 'g v2_aco" where
  "v2_ants R 0 a best = Inr ([], best, a)"
| "v2_ants R (Suc k) a best =
     (case v2_construct_solution R a of
        (Inl e, a1) \<Rightarrow> Inl e
      | (Inr solution, a1) \<Rightarrow>
          (case v2_evaluate a1 solution of
             Inl e \<Rightarrow> Inl e
           | Inr fit \<Rightarrow>
               (case v2_ants R k a1
                       (if (case best of None \<Rightarrow> True | Some (_, best_fitness) \<Rightarrow>
                              best_fitness < fit)
                        then Some (solution, fit) else best) of
                  Inl e \<Rightarrow> Inl e
                | Inr (sols, best', a2) \<Rightarrow> Inr ((solution, fit) # sols, best', a2))))"

fun v2_run_loop ::
  "'g random_module \<Rightarrow> nat \<Rightarrow> 'g v2_aco \<Rightarrow> (v2_student list list \<times> real) option
     \<Rightarrow> py_error + (v2_student list list \<times> real) option \<times> 'g v2_aco" where
  "v2_run_loop R 0 a best = Inr (best, a)"
| "v2_run_loop R (Suc k) a best =
     (case v2_ants R (nat (num_ants a)) a best of
        Inl e \<Rightarrow> Inl e
      | Inr (all_solutions, best', a1) \<Rightarrow>
          v2_run_loop R k (v2_update_pheromones (v2_evaporate_pheromones a1) all_solutions) best')"

definition v2_run ::
  "'g random_module \<Rightarrow> 'g v2_aco \<Rightarrow> py_error + (v2_student list list \<times> real) option \<times> 'g v2_aco" where
  "v2_run R a = v2_run_loop R (nat (max_iter a)) a None"


section \<open>Properties\<close>

subsection \<open>Helper lemmas\<close>

lemma index_of_nth:
  "distinct xs \<Longrightarrow> k < length xs \<Longrightarrow> index_of xs (xs ! k) = Some k"
proof (induction xs arbitrary: k)
  case Nil
  then show ?case by simp
next
  case (Cons y ys)
  show ?case
  proof (cases k)
    case 0
    then show ?thesis by simp
  next
    case (Suc j)
    with Cons.prems have "ys ! j \<noteq> y" "distinct ys" "j < length ys"
      by auto
    with Cons.IH [of j] Suc show ?thesis by simp
  qed
qed

lemma satisfaction_at_rank:
  assumes "distinct (prefs s)" and "2 \<le> length (prefs s)" and "k < length (prefs s)"
  shows "satisfaction s (prefs s ! k)
           = Inr ((real (length (prefs s)) - 1 - real k) / (real (length (prefs s)) - 1))"
proof -
  have idx: "index_of (prefs s) (prefs s ! k) = Some k"
    using assms by (simp add: index_of_nth)
  have nz: "int (length (prefs s)) - 1 \<noteq> 0"
    using assms by simp
  have num: "real_of_int (int (length (prefs s)) - 1 - int k)
               = real (length (prefs s)) - 1 - real k"
    by simp
  have den: "real_of_int (int (length (prefs s)) - 1) = real (length (prefs s)) - 1"
    by simp
  have "satisfaction s (prefs s ! k)
          = Inr (real_of_int (int (length (prefs s)) - 1 - int k)
                 / real_of_int (int (length (prefs s)) - 1))"
    unfolding satisfaction_def using idx nz by simp
  then show ?thesis
    unfolding num den .
qed

subsection \<open>The constraint check\<close>

text \<open>
  Claim C8. \<^verbatim>\<open>can_add\<close> is False whenever the member count equals the capacity, whatever
  the individual's attribute value; below capacity it is True when the attribute equals the
  unrestricted value, and otherwise True exactly when the number of current members with
  the individual's attribute value is strictly below the per-attribute cap. The cap
  defaults to 2 (and the unrestricted value to \<^verbatim>\<open>"Dutch"\<close>).
\<close>

theorem can_add_cases:
  "(int (length (students t)) = capacity t \<longrightarrow> \<not> can_add t s cap u) \<and>
   (int (length (students t)) < capacity t \<longrightarrow> nationality s = u \<longrightarrow> can_add t s cap u) \<and>
   (int (length (students t)) < capacity t \<longrightarrow> nationality s \<noteq> u \<longrightarrow>
      (can_add t s cap u \<longleftrightarrow>
         int (length (filter (\<lambda>m. nationality m = nationality s) (students t))) < cap)) \<and>
   can_add_default t s = can_add t s 2 ''Dutch''"
  by (simp add: can_add_def can_add_default_def)

theorem can_add_cases_witness:
  "\<not> can_add \<lparr>team_id = 0, project = 0, capacity = 1,
        students = [\<lparr>student_id = 0, prefs = [0, 1], belbin = ''Plant'', nationality = ''Dutch''\<rparr>]\<rparr>
      \<lparr>student_id = 1, prefs = [1, 0], belbin = ''Shaper'', nationality = ''Dutch''\<rparr> 2 ''Dutch'' \<and>
   can_add \<lparr>team_id = 0, project = 0, capacity = 3,
        students = [\<lparr>student_id = 0, prefs = [0, 1], belbin = ''Plant'', nationality = ''Dutch''\<rparr>,
                    \<lparr>student_id = 2, prefs = [0, 1], belbin = ''Plant'', nationality = ''Dutch''\<rparr>]\<rparr>
      \<lparr>student_id = 1, prefs = [1, 0], belbin = ''Shaper'', nationality = ''Dutch''\<rparr> 2 ''Dutch'' \<and>
   \<not> can_add \<lparr>team_id = 0, project = 0, capacity = 3,
        students = [\<lparr>student_id = 0, prefs = [0, 1], belbin = ''Plant'', nationality = ''German''\<rparr>,
                    \<lparr>student_id = 2, prefs = [0, 1], belbin = ''Plant'', nationality = ''German''\<rparr>]\<rparr>
      \<lparr>student_id = 1, prefs = [1, 0], belbin = ''Shaper'', nationality = ''German''\<rparr> 2 ''Dutch'' \<and>
   can_add \<lparr>team_id = 0, project = 0, capacity = 3,
        students = [\<lparr>student_id = 0, prefs = [0, 1], belbin = ''Plant'', nationality = ''German''\<rparr>]\<rparr>
      \<lparr>student_id = 1, prefs = [1, 0], belbin = ''Shaper'', nationality = ''German''\<rparr> 2 ''Dutch''"
  using
    can_add_cases [of "\<lparr>team_id = 0, project = 0, capacity = 1,
        students = [\<lparr>student_id = 0, prefs = [0, 1], belbin = ''Plant'', nationality = ''Dutch''\<rparr>]\<rparr>"
      "\<lparr>student_id = 1, prefs = [1, 0], belbin = ''Shaper'', nationality = ''Dutch''\<rparr>" 2 "''Dutch''"]
    can_add_cases [of "\<lparr>team_id = 0, project = 0, capacity = 3,
        students = [\<lparr>student_id = 0, prefs = [0, 1], belbin = ''Plant'', nationality = ''Dutch''\<rparr>,
                    \<lparr>student_id = 2, prefs = [0, 1], belbin = ''Plant'', nationality = ''Dutch''\<rparr>]\<rparr>"
      "\<lparr>student_id = 1, prefs = [1, 0], belbin = ''Shaper'', nationality = ''Dutch''\<rparr>" 2 "''Dutch''"]
    can_add_cases [of "\<lparr>team_id = 0, project = 0, capacity = 3,
        students = [\<lparr>student_id = 0, prefs = [0, 1], belbin = ''Plant'', nationality = ''German''\<rparr>,
                    \<lparr>student_id = 2, prefs = [0, 1], belbin = ''Plant'', nationality = ''German''\<rparr>]\<rparr>"
      "\<lparr>student_id = 1, prefs = [1, 0], belbin = ''Shaper'', nationality = ''German''\<rparr>" 2 "''Dutch''"]
    can_add_cases [of "\<lparr>team_id = 0, project = 0, capacity = 3,
        students = [\<lparr>student_id = 0, prefs = [0, 1], belbin = ''Plant'', nationality = ''German''\<rparr>]\<rparr>"
      "\<lparr>student_id = 1, prefs = [1, 0], belbin = ''Shaper'', nationality = ''German''\<rparr>" 2 "''Dutch''"]
  by simp

subsection \<open>Satisfaction\<close>

text \<open>
  Claim C9. For an individual whose preference list is a permutation of the projects (its
  entries are distinct) with at least two projects, the satisfaction at the project of rank
  \<open>k\<close> is \<open>(n - 1 - k) / (n - 1)\<close>: 1 at the top rank, 0 at the bottom rank, linear in the
  rank in between, and non-increasing as the rank worsens.
\<close>

theorem satisfaction_by_rank:
  assumes "distinct (prefs s)" and "2 \<le> length (prefs s)"
  shows "satisfaction s (prefs s ! 0) = Inr 1 \<and>
         satisfaction s (prefs s ! (length (prefs s) - 1)) = Inr 0 \<and>
         (\<forall>k < length (prefs s).
            satisfaction s (prefs s ! k)
              = Inr ((real (length (prefs s)) - 1 - real k) / (real (length (prefs s)) - 1))) \<and>
         (\<forall>j k. j \<le> k \<and> k < length (prefs s) \<longrightarrow>
            (\<exists>a b. satisfaction s (prefs s ! j) = Inr a \<and>
                   satisfaction s (prefs s ! k) = Inr b \<and> b \<le> a))"
proof -
  let ?n = "length (prefs s)"
  have pos: "0 < real ?n - 1" using assms(2) by linarith
  have top: "satisfaction s (prefs s ! 0) = Inr 1"
  proof -
    have "0 < ?n" using assms(2) by linarith
    from satisfaction_at_rank [OF assms this] pos show ?thesis by simp
  qed
  have bot: "satisfaction s (prefs s ! (?n - 1)) = Inr 0"
  proof -
    have "?n - 1 < ?n" using assms(2) by linarith
    from satisfaction_at_rank [OF assms this] assms show ?thesis
      by (simp add: of_nat_diff)
  qed
  have lin: "\<forall>k < ?n. satisfaction s (prefs s ! k)
               = Inr ((real ?n - 1 - real k) / (real ?n - 1))"
    using assms by (simp add: satisfaction_at_rank)
  have mono: "\<forall>j k. j \<le> k \<and> k < ?n \<longrightarrow>
                (\<exists>a b. satisfaction s (prefs s ! j) = Inr a \<and>
                       satisfaction s (prefs s ! k) = Inr b \<and> b \<le> a)"
  proof (intro allI impI)
    fix j k
    assume jk: "j \<le> k \<and> k < ?n"
    then have j: "j < ?n" and k: "k < ?n" by simp_all
    have "(real ?n - 1 - real k) / (real ?n - 1) \<le> (real ?n - 1 - real j) / (real ?n - 1)"
      using jk pos by (simp add: divide_right_mono)
    with satisfaction_at_rank [OF assms j] satisfaction_at_rank [OF assms k]
    show "\<exists>a b. satisfaction s (prefs s ! j) = Inr a \<and>
                satisfaction s (prefs s ! k) = Inr b \<and> b \<le> a"
      by simp
  qed
  from top bot lin mono show ?thesis by blast
qed

theorem satisfaction_by_rank_witness:
  "distinct [2, 0, 1 :: int] \<and> 2 \<le> length [2, 0, 1 :: int] \<and>
   satisfaction \<lparr>student_id = 0, prefs = [2, 0, 1], belbin = ''Plant'', nationality = ''Dutch''\<rparr> 2 = Inr 1 \<and>
   satisfaction \<lparr>student_id = 0, prefs = [2, 0, 1], belbin = ''Plant'', nationality = ''Dutch''\<rparr> 0 = Inr (1 / 2) \<and>
   satisfaction \<lparr>student_id = 0, prefs = [2, 0, 1], belbin = ''Plant'', nationality = ''Dutch''\<rparr> 1 = Inr 0"
proof -
  let ?s = "\<lparr>student_id = 0, prefs = [2, 0, 1], belbin = ''Plant'', nationality = ''Dutch''\<rparr>"
  have d: "distinct (prefs ?s)" and l: "2 \<le> length (prefs ?s)" by simp_all
  note th = satisfaction_by_rank [OF d l]
  from th have top: "satisfaction ?s (prefs ?s ! 0) = Inr 1" by blast
  from th have bot: "satisfaction ?s (prefs ?s ! (length (prefs ?s) - 1)) = Inr 0" by blast
  from th have lin: "\<forall>k < length (prefs ?s). satisfaction ?s (prefs ?s ! k)
       = Inr ((real (length (prefs ?s)) - 1 - real k) / (real (length (prefs ?s)) - 1))"
    by blast
  have "(1::nat) < length (prefs ?s)" by simp
  with lin have "satisfaction ?s (prefs ?s ! 1)
       = Inr ((real (length (prefs ?s)) - 1 - real 1) / (real (length (prefs ?s)) - 1))"
    by blast
  then have mid: "satisfaction ?s 0 = Inr (1 / 2)" by simp
  from top bot mid show ?thesis by simp
qed

end
